theory Spec2Isabelle
  imports Main
begin

section \<open>Python values, exceptions and the environment\<close>

text \<open>
  The preference store keeps whatever \<^verbatim>\<open>json.loads\<close> returned and whatever the callers
  append, so its contents are modelled as untyped JSON-like Python values. A dict is an
  association list in insertion order (its keys are distinct in every value the code
  builds). Strings are lists of characters with code points below 256; floats do not occur
  in any value the code builds and are left out.
\<close>

datatype pyval =
    PNone
  | PBool bool
  | PInt int
  | PStr string
  | PList "pyval list"
  | PDict "(string \<times> pyval) list"

text \<open>The exceptions (all subclasses of \<^verbatim>\<open>Exception\<close>) the modelled code can meet, with their message.\<close>

datatype pyexc =
    AttributeError string
  | TypeError string
  | JSONDecodeError string
  | FileNotFoundError string
  | RecursionError string
  | ValueError string
  | APIError string

fun exc_str :: "pyexc \<Rightarrow> string" where
  "exc_str (AttributeError m) = m"
| "exc_str (TypeError m) = m"
| "exc_str (JSONDecodeError m) = m"
| "exc_str (FileNotFoundError m) = m"
| "exc_str (RecursionError m) = m"
| "exc_str (ValueError m) = m"
| "exc_str (APIError m) = m"

text \<open>
  What the code takes from libraries and from the outside world: the JSON codec of the
  standard library, the uuid generator, the clock, and the remote chat-completion call.
  The \<open>k\<close>-th call of a generator returns the \<open>k\<close>-th element; the counters live in the state.
  The request sent to the chat API (prompt templates, the last ten messages) only
  influences what the remote call answers, which is arbitrary here.
\<close>

record env =
  json_dumps :: "pyval \<Rightarrow> string"
  json_loads :: "string \<Rightarrow> pyexc + pyval"
  uuid4 :: "nat \<Rightarrow> string"
  now_iso :: "nat \<Rightarrow> string"
  chat_completion :: "nat \<Rightarrow> pyexc + pyval"

text \<open>
  The state: the manager's in-memory \<^verbatim>\<open>self.preferences\<close>, the content of the storage file
  (\<open>None\<close> when it does not exist), the bot's conversation histories, and the counters of
  the generators. Creating the parent directory and writing the file are taken to succeed.
\<close>

record state =
  preferences :: pyval
  storage_file :: "string option"
  conversations :: "(string \<times> (string \<times> pyval) list) list"
  n_uuid :: nat
  n_clock :: nat
  n_chat :: nat

section \<open>Python primitives used by the code\<close>

text \<open>\<^verbatim>\<open>str.isspace\<close> on code points below 256, and \<^verbatim>\<open>str.strip()\<close>.\<close>

definition is_space :: "char \<Rightarrow> bool" where
  "is_space c = (c = CHR 0x09 \<or> c = CHR 0x0A \<or> c = CHR 0x0B \<or> c = CHR 0x0C \<or> c = CHR 0x0D
     \<or> c = CHR 0x1C \<or> c = CHR 0x1D \<or> c = CHR 0x1E \<or> c = CHR 0x1F \<or> c = CHR 0x20
     \<or> c = CHR 0x85 \<or> c = CHR 0xA0)"

definition strip :: "string \<Rightarrow> string" where
  "strip s = rev (dropWhile is_space (rev (dropWhile is_space s)))"

text \<open>\<^verbatim>\<open>d.get(k)\<close> on a dict: the value, or \<^verbatim>\<open>None\<close> for a missing key.\<close>

definition dict_get :: "(string \<times> pyval) list \<Rightarrow> string \<Rightarrow> pyval" where
  "dict_get d k = (case map_of d k of None \<Rightarrow> PNone | Some v \<Rightarrow> v)"

text \<open>\<^verbatim>\<open>p.get(k)\<close> on any value: only a dict has the method.\<close>

fun py_get :: "pyval \<Rightarrow> string \<Rightarrow> pyexc + pyval" where
  "py_get (PDict d) k = Inr (dict_get d k)"
| "py_get _ k = Inl (AttributeError ''get'')"

text \<open>
  The elements \<^verbatim>\<open>len\<close> counts and a comprehension iterates over: the items of a list,
  the keys of a dict, the characters of a string; the other values raise \<^verbatim>\<open>TypeError\<close>.
\<close>

fun py_iter :: "pyval \<Rightarrow> pyexc + pyval list" where
  "py_iter (PList xs) = Inr xs"
| "py_iter (PDict d) = Inr (map (\<lambda>kv. PStr (fst kv)) d)"
| "py_iter (PStr s) = Inr (map (\<lambda>c. PStr [c]) s)"
| "py_iter _ = Inl (TypeError ''len'')"

section \<open>PreferenceManager (src/core/preference\_manager.py)\<close>

text \<open>
  \<^verbatim>\<open>_load_preferences\<close>: a missing file gives the empty list; otherwise the text is
  stripped, the empty text and \<^verbatim>\<open>{}\<close> give the empty list, and the rest goes to
  \<^verbatim>\<open>json.loads\<close>, whose \<^verbatim>\<open>JSONDecodeError\<close> (and a \<^verbatim>\<open>FileNotFoundError\<close>) is caught and
  gives the empty list. Any other exception propagates.
\<close>

definition load_preferences :: "env \<Rightarrow> string option \<Rightarrow> pyexc + pyval" where
  "load_preferences E f =
     (case f of
        None \<Rightarrow> Inr (PList [])
      | Some content \<Rightarrow>
          (let data = strip content in
           if data = [] \<or> data = ''{}'' then Inr (PList [])
           else (case json_loads E data of
                   Inl (JSONDecodeError m) \<Rightarrow> Inr (PList [])
                 | Inl (FileNotFoundError m) \<Rightarrow> Inr (PList [])
                 | Inl e \<Rightarrow> Inl e
                 | Inr v \<Rightarrow> Inr v)))"

text \<open>\<^verbatim>\<open>__init__\<close>: the in-memory list is what \<^verbatim>\<open>_load_preferences\<close> returns; the file is not touched.\<close>

definition initial_state :: "pyval \<Rightarrow> string option \<Rightarrow> state" where
  "initial_state v f = \<lparr>preferences = v, storage_file = f, conversations = [],
                         n_uuid = 0, n_clock = 0, n_chat = 0\<rparr>"

definition init :: "env \<Rightarrow> string option \<Rightarrow> pyexc + state" where
  "init E f =
     (case load_preferences E f of
        Inl e \<Rightarrow> Inl e
      | Inr v \<Rightarrow> Inr (initial_state v f))"

text \<open>\<^verbatim>\<open>_save_preferences\<close>: the file is overwritten with the dump of the whole list.\<close>

definition save_preferences :: "env \<Rightarrow> state \<Rightarrow> state" where
  "save_preferences E st = st\<lparr>storage_file := Some (json_dumps E (preferences st))\<rparr>"

text \<open>
  \<^verbatim>\<open>add_preference\<close>: the record is built first (drawing a uuid), then appended, which
  raises \<^verbatim>\<open>AttributeError\<close> when \<^verbatim>\<open>self.preferences\<close> is not a list, then the file is rewritten.
  The first argument is whatever the caller passes.
\<close>

definition new_pref :: "env \<Rightarrow> pyval \<Rightarrow> string \<Rightarrow> state \<Rightarrow> pyval" where
  "new_pref E preference_text source st =
     PDict [(''text'', preference_text), (''source'', PStr source),
            (''id'', PStr (uuid4 E (n_uuid st)))]"

definition add_preference :: "env \<Rightarrow> pyval \<Rightarrow> string \<Rightarrow> state \<Rightarrow> (pyexc + pyval) \<times> state" where
  "add_preference E preference_text source st =
     (let r = new_pref E preference_text source st;
          st1 = st\<lparr>n_uuid := Suc (n_uuid st)\<rparr>
      in case preferences st1 of
           PList ps \<Rightarrow> (Inr r, save_preferences E (st1\<lparr>preferences := PList (ps @ [r])\<rparr>))
         | _ \<Rightarrow> (Inl (AttributeError ''append''), st1))"

definition get_preferences :: "state \<Rightarrow> pyval" where
  "get_preferences st = preferences st"

definition get_timestamp :: "env \<Rightarrow> state \<Rightarrow> string \<times> state" where
  "get_timestamp E st = (now_iso E (n_clock st), st\<lparr>n_clock := Suc (n_clock st)\<rparr>)"

text \<open>
  The comprehension of \<^verbatim>\<open>delete_preference\<close>: \<^verbatim>\<open>[p for p in ... if p.get("id") != pref_id]\<close>,
  left to right, raising at the first element without a \<^verbatim>\<open>get\<close> method.
\<close>

fun keep_other_ids :: "string \<Rightarrow> pyval list \<Rightarrow> pyexc + pyval list" where
  "keep_other_ids pref_id [] = Inr []"
| "keep_other_ids pref_id (p # ps) =
     (case py_get p ''id'' of
        Inl e \<Rightarrow> Inl e
      | Inr v \<Rightarrow>
          (case keep_other_ids pref_id ps of
             Inl e \<Rightarrow> Inl e
           | Inr r \<Rightarrow> Inr (if v \<noteq> PStr pref_id then p # r else r)))"

definition delete_preference :: "env \<Rightarrow> string \<Rightarrow> state \<Rightarrow> (pyexc + bool) \<times> state" where
  "delete_preference E pref_id st =
     (case py_iter (preferences st) of
        Inl e \<Rightarrow> (Inl e, st)
      | Inr ps \<Rightarrow>
          (case keep_other_ids pref_id ps of
             Inl e \<Rightarrow> (Inl e, st)
           | Inr r \<Rightarrow>
               (let st1 = st\<lparr>preferences := PList r\<rparr>
                in if length r < length ps then (Inr True, save_preferences E st1)
                   else (Inr False, st1))))"

section \<open>ElicitationBot.save\_preference (src/core/elicitation\_bot.py)\<close>

text \<open>
  \<^verbatim>\<open>save_preference\<close>: an empty text, or one whose stripped length is below 3, returns
  \<^verbatim>\<open>None\<close> at once. Otherwise a record with its own uuid and a timestamp is built and
  handed, as the single argument, to \<^verbatim>\<open>add_preference\<close>, whose second parameter takes its
  default \<^verbatim>\<open>"manual_chat"\<close>; the record built here is returned.
\<close>

definition save_preference :: "env \<Rightarrow> string \<Rightarrow> string \<Rightarrow> state \<Rightarrow> (pyexc + pyval) \<times> state" where
  "save_preference E preference_text source st =
     (if preference_text = [] \<or> length (strip preference_text) < 3 then (Inr PNone, st)
      else
        (let u = uuid4 E (n_uuid st);
             st1 = st\<lparr>n_uuid := Suc (n_uuid st)\<rparr>;
             (ts, st2) = get_timestamp E st1;
             preference = PDict [(''id'', PStr u), (''text'', PStr preference_text),
                                 (''source'', PStr source), (''timestamp'', PStr ts)]
         in case add_preference E preference ''manual_chat'' st2 of
              (Inl e, st3) \<Rightarrow> (Inl e, st3)
            | (Inr r, st3) \<Rightarrow> (Inr preference, st3)))"

section \<open>The fragment of Python's \<^verbatim>\<open>re\<close> that the code uses\<close>

text \<open>
  The patterns of the bot are built from literals, the greedy run of whitespace
  (\<open>Space1\<close>), the lazy \<^verbatim>\<open>.+?\<close> and \<^verbatim>\<open>.*?\<close> (\<open>AnyLazy 1\<close> and \<open>AnyLazy 0\<close>), the greedy
  \<^verbatim>\<open>.+\<close>, the greedy optional group \<^verbatim>\<open>(?:r)?\<close>, alternation, concatenation, capturing
  groups and \<^verbatim>\<open>$\<close>.
\<close>

datatype rx =
    Lit string
  | Space1
  | AnyLazy nat
  | AnyGreedy1
  | Opt rx
  | Alt "rx list"
  | Seq "rx list"
  | Group rx
  | EndAnchor

text \<open>
  Case folding of \<^verbatim>\<open>re.IGNORECASE\<close> on code points below 256, where the literals of the
  patterns are ASCII; the length of the longest run of characters that \<^verbatim>\<open>.\<close> matches
  (anything but a newline), and of whitespace characters.
\<close>

definition ascii_lower :: "char \<Rightarrow> char" where
  "ascii_lower c = (case map_of (zip ''ABCDEFGHIJKLMNOPQRSTUVWXYZ'' ''abcdefghijklmnopqrstuvwxyz'') c of
                None \<Rightarrow> c | Some d \<Rightarrow> d)"

definition lit_prefix :: "bool \<Rightarrow> string \<Rightarrow> string \<Rightarrow> bool" where
  "lit_prefix ic l s =
     (length l \<le> length s \<and>
      (if ic then map ascii_lower (take (length l) s) = map ascii_lower l else take (length l) s = l))"

definition dot_run :: "string \<Rightarrow> nat" where
  "dot_run s = length (takeWhile (\<lambda>c. c \<noteq> CHR 0x0A) s)"

definition space_run :: "string \<Rightarrow> nat" where
  "space_run s = length (takeWhile is_space s)"

text \<open>
  The backtracking matcher. A configuration is the text still to be read and the groups
  captured so far; the result lists, in the order the backtracking engine tries them, the
  configurations after a match of the expression, so its head is the match \<^verbatim>\<open>re\<close> reports.
  A flag says whether case is ignored. \<^verbatim>\<open>$\<close> matches at the end of the text and before a
  final newline.
\<close>

fun rx_match :: "bool \<Rightarrow> rx \<Rightarrow> string \<times> string list \<Rightarrow> (string \<times> string list) list" where
  "rx_match ic (Lit l) (s, g) = (if lit_prefix ic l s then [(drop (length l) s, g)] else [])"
| "rx_match ic Space1 (s, g) = map (\<lambda>k. (drop k s, g)) (rev [1..<Suc (space_run s)])"
| "rx_match ic (AnyLazy n) (s, g) = map (\<lambda>k. (drop k s, g)) [n..<Suc (dot_run s)]"
| "rx_match ic AnyGreedy1 (s, g) = map (\<lambda>k. (drop k s, g)) (rev [1..<Suc (dot_run s)])"
| "rx_match ic (Opt r) c = rx_match ic r c @ [c]"
| "rx_match ic (Alt rs) c = concat (map (\<lambda>r. rx_match ic r c) rs)"
| "rx_match ic (Seq []) c = [c]"
| "rx_match ic (Seq (r # rs)) c = concat (map (rx_match ic (Seq rs)) (rx_match ic r c))"
| "rx_match ic (Group r) (s, g) =
     map (\<lambda>c'. (fst c', snd c' @ [take (length s - length (fst c')) s])) (rx_match ic r (s, g))"
| "rx_match ic EndAnchor (s, g) = (if s = [] \<or> s = [CHR 0x0A] then [(s, g)] else [])"

text \<open>
  \<^verbatim>\<open>re.finditer\<close>: the groups of the successive non-overlapping matches, scanning from left
  to right, each search resuming where the previous match ended. None of the patterns
  below matches the empty text; after an empty match the scan moves on by one character.
\<close>

function rx_finditer :: "bool \<Rightarrow> rx \<Rightarrow> string \<Rightarrow> string list list" where
  "rx_finditer ic r s =
     (case rx_match ic r (s, []) of
        [] \<Rightarrow> (case s of [] \<Rightarrow> [] | c # t \<Rightarrow> rx_finditer ic r t)
      | m # ms \<Rightarrow>
          (if length (fst m) < length s then snd m # rx_finditer ic r (fst m)
           else snd m # (case s of [] \<Rightarrow> [] | c # t \<Rightarrow> rx_finditer ic r t)))"
  by pat_completeness auto
termination
  by (relation "measure (\<lambda>(ic, r, s). length s)") auto

text \<open>\<^verbatim>\<open>re.search\<close>: the groups of the leftmost match, if any.\<close>

fun rx_search :: "bool \<Rightarrow> rx \<Rightarrow> string \<Rightarrow> string list option" where
  "rx_search ic r [] = (case rx_match ic r ([], []) of [] \<Rightarrow> None | m # ms \<Rightarrow> Some (snd m))"
| "rx_search ic r (c # t) =
     (case rx_match ic r (c # t, []) of [] \<Rightarrow> rx_search ic r t | m # ms \<Rightarrow> Some (snd m))"

section \<open>ElicitationBot (src/core/elicitation\_bot.py, src/core/llm\_services.py)\<close>

text \<open>
  The seventeen patterns of \<^verbatim>\<open>_extract_preferences_with_pattern\<close>, in the order of the
  source; each ends with the alternative of a full stop, an exclamation mark, a newline
  and \<^verbatim>\<open>$\<close>.
\<close>

definition terminator :: rx where
  "terminator = Alt [Lit ''.'', Lit ''!'', Lit [CHR 0x0A], EndAnchor]"

definition preference_patterns :: "rx list" where
  "preference_patterns =
    [Seq [Lit ''I '', Opt (Lit ''really ''),
          Alt [Lit ''like'', Lit ''love'', Lit ''enjoy'', Lit ''prefer'', Lit ''adore'',
               Lit ''am fond of'', Lit ''favor''],
          Lit '' '', Group (AnyLazy 1), terminator],
     Seq [Lit (''I'' @ [CHR 0x27] @ ''m ''),
          Alt [Lit ''a big fan of'', Lit ''passionate about'', Lit ''interested in''],
          Lit '' '', Group (AnyLazy 1), terminator],
     Seq [Lit ''My favorite '', Group (AnyLazy 1), Lit '' '', Alt [Lit ''is'', Lit ''are''],
          Lit '' '', Group (AnyLazy 1), terminator],
     Seq [Lit ''I '',
          Alt [Lit ''hate'', Lit ''dislike'', Lit (''can'' @ [CHR 0x27] @ ''t stand''), Lit ''despise''],
          Lit '' '', Group (AnyLazy 1), terminator],
     Seq [Lit ''I '',
          Alt [Lit ''wish'', Lit ''want'', Lit ''would like'', Lit ''hope'', Lit ''desire''],
          Lit '' '', Group (AnyLazy 1), terminator],
     Seq [Lit ''I '',
          Alt [Lit ''believe'', Lit ''think'', Lit ''feel'', Lit ''am convinced''],
          Lit '' '', Opt (Lit ''that ''), Group (AnyLazy 1), terminator],
     Seq [Lit (''I'' @ [CHR 0x27] @ ''m ''),
          Alt [Lit ''attracted to'', Lit ''into'', Lit ''turned on by''],
          Lit '' '', Group (AnyLazy 1), terminator],
     Seq [Lit ''I '',
          Alt [Lit ''always'', Lit ''usually'', Lit ''often'', Lit ''sometimes'', Lit ''rarely'',
               Lit ''never''],
          Lit '' '', Group (AnyLazy 1), terminator],
     Seq [Lit ''I'', Space1, Lit ''prefer'', Space1, Group (AnyLazy 0), terminator],
     Seq [Lit ''I'', Space1, Lit ''need'', Space1, Group (AnyLazy 0), terminator],
     Seq [Lit ''I'', Space1, Lit ''would'', Space1, Lit ''prefer'', Space1, Group (AnyLazy 0), terminator],
     Seq [Lit ''I'', Space1, Lit (''don'' @ [CHR 0x27] @ ''t''), Space1, Lit ''like'', Space1,
          Group (AnyLazy 0), terminator],
     Seq [Lit ''I'', Space1, Lit ''appreciate'', Space1, Group (AnyLazy 0), terminator],
     Seq [Lit ''I'', Space1, Lit ''value'', Space1, Group (AnyLazy 0), terminator],
     Seq [Lit ''I'', Space1, Lit ''hate'', Space1, Lit ''when'', Space1, Group (AnyLazy 0), terminator],
     Seq [Lit ''it'', Space1, Lit ''bothers'', Space1, Lit ''me'', Space1, Lit ''when'', Space1,
          Group (AnyLazy 0), terminator],
     Seq [Lit ''it'', Space1, Lit ''annoys'', Space1, Lit ''me'', Space1, Lit ''when'', Space1,
          Group (AnyLazy 0), terminator]]"

text \<open>
  \<^verbatim>\<open>_extract_preferences_with_pattern\<close>: for each pattern in turn and each of its matches,
  the first group is kept, stripped, when it is longer than five characters.
\<close>

definition accepted_group :: "string list \<Rightarrow> string list" where
  "accepted_group g = (case g of [] \<Rightarrow> [] | x # xs \<Rightarrow> if 5 < length x then [strip x] else [])"

definition extract_preferences_with_pattern :: "string \<Rightarrow> string list" where
  "extract_preferences_with_pattern text =
     concat (map (\<lambda>pattern. concat (map accepted_group (rx_finditer True pattern text)))
               preference_patterns)"

text \<open>
  \<^verbatim>\<open>LLMService.generate_response\<close>: the content of the answer of the remote call, or an
  error text when the call raises; it never raises itself.
\<close>

definition generate_response :: "env \<Rightarrow> state \<Rightarrow> pyval \<times> state" where
  "generate_response E st =
     ((case chat_completion E (n_chat st) of
         Inl e \<Rightarrow> PStr (''Error generating response: '' @ exc_str e)
       | Inr content \<Rightarrow> content),
      st\<lparr>n_chat := Suc (n_chat st)\<rparr>)"

text \<open>
  \<^verbatim>\<open>_extract_preference_from_response\<close>: one call of the model, then
  \<^verbatim>\<open>re.search(r"PREFERENCE: (.+)", ...)\<close>; the stripped group is returned unless it is
  \<^verbatim>\<open>NONE\<close>. A content that is not a string makes \<^verbatim>\<open>re.search\<close> raise \<^verbatim>\<open>TypeError\<close>, which the
  function's own \<^verbatim>\<open>except Exception\<close> turns into \<^verbatim>\<open>None\<close>.
\<close>

definition preference_rx :: rx where
  "preference_rx = Seq [Lit ''PREFERENCE: '', Group AnyGreedy1]"

definition extract_preference_from_response :: "env \<Rightarrow> string \<Rightarrow> state \<Rightarrow> string option \<times> state" where
  "extract_preference_from_response E user_message st =
     (let (response, st1) = generate_response E st
      in ((case response of
             PStr s \<Rightarrow>
               (case rx_search False preference_rx s of
                  None \<Rightarrow> None
                | Some g \<Rightarrow>
                    (case g of
                       [] \<Rightarrow> None
                     | x # xs \<Rightarrow>
                         (let preference = strip x
                          in if preference = ''NONE'' then None else Some preference)))
           | _ \<Rightarrow> None),
          st1))"

text \<open>\<^verbatim>\<open>self.conversations[user_id].append(...)\<close>, creating the history of a new user.\<close>

fun conversation_append ::
  "string \<Rightarrow> string \<times> pyval \<Rightarrow> (string \<times> (string \<times> pyval) list) list
     \<Rightarrow> (string \<times> (string \<times> pyval) list) list" where
  "conversation_append user_id m [] = [(user_id, [m])]"
| "conversation_append user_id m (kh # rest) =
     (if fst kh = user_id then (fst kh, snd kh @ [m]) # rest
      else kh # conversation_append user_id m rest)"

text \<open>The loop \<^verbatim>\<open>for pref in pattern_preferences: self.save_preference(pref, source=...)\<close>.\<close>

fun save_all :: "env \<Rightarrow> string list \<Rightarrow> string \<Rightarrow> state \<Rightarrow> (pyexc + unit) \<times> state" where
  "save_all E [] source st = (Inr (), st)"
| "save_all E (pref # prefs) source st =
     (case save_preference E pref source st of
        (Inl e, st1) \<Rightarrow> (Inl e, st1)
      | (Inr r, st1) \<Rightarrow> save_all E prefs source st1)"

text \<open>\<^verbatim>\<open>None if not pattern_preferences else pattern_preferences[0]\<close>.\<close>

definition first_or_none :: "string list \<Rightarrow> string option" where
  "first_or_none prefs = (case prefs of [] \<Rightarrow> None | p # ps \<Rightarrow> Some p)"

text \<open>
  The body of the \<^verbatim>\<open>try\<close> block of \<^verbatim>\<open>process_message\<close>: the extraction call, then the save of
  a non-empty preference other than \<^verbatim>\<open>NONE\<close>; its value is the detected preference.
\<close>

definition llm_extraction_step ::
  "env \<Rightarrow> string \<Rightarrow> string list \<Rightarrow> state \<Rightarrow> (pyexc + string option) \<times> state" where
  "llm_extraction_step E message pattern_preferences st =
     (let (llm_preference, st1) = extract_preference_from_response E message st
      in case llm_preference of
           None \<Rightarrow> (Inr (first_or_none pattern_preferences), st1)
         | Some p \<Rightarrow>
             if p \<noteq> [] \<and> p \<noteq> ''NONE''
             then (case save_preference E p ''llm_detected'' st1 of
                     (Inl e, st2) \<Rightarrow> (Inl e, st2)
                   | (Inr r, st2) \<Rightarrow> (Inr (Some p), st2))
             else (Inr (first_or_none pattern_preferences), st1))"

text \<open>Recording a message in the history of a user.\<close>

definition record_message :: "string \<Rightarrow> string \<Rightarrow> pyval \<Rightarrow> state \<Rightarrow> state" where
  "record_message user_id role content st =
     st\<lparr>conversations := conversation_append user_id (role, content) (conversations st)\<rparr>"

text \<open>
  \<^verbatim>\<open>process_message\<close>: the user message is recorded, the pattern preferences are saved (an
  exception here propagates), the \<^verbatim>\<open>try\<close> block runs with its \<^verbatim>\<open>except Exception\<close> falling
  back to the first pattern preference, and the reply of the model is recorded and returned
  with the detected preference.
\<close>

definition process_message ::
  "env \<Rightarrow> string \<Rightarrow> string \<Rightarrow> state \<Rightarrow> (pyexc + pyval \<times> string option) \<times> state" where
  "process_message E user_id message st =
     (let st0 = record_message user_id ''user'' (PStr message) st;
          pattern_preferences = extract_preferences_with_pattern message
      in case save_all E pattern_preferences ''pattern_detected'' st0 of
           (Inl e, st1) \<Rightarrow> (Inl e, st1)
         | (Inr u, st1) \<Rightarrow>
             (let (detected_preference, st2) =
                    (case llm_extraction_step E message pattern_preferences st1 of
                       (Inl e, st2) \<Rightarrow> (first_or_none pattern_preferences, st2)
                     | (Inr d, st2) \<Rightarrow> (d, st2));
                  (response, st3) = generate_response E st2;
                  st4 = record_message user_id ''assistant'' response st3
              in (Inr (response, detected_preference), st4)))"

section \<open>Notions used to state the properties\<close>

text \<open>A record of the store is a dict; its id is what \<^verbatim>\<open>p.get("id")\<close> returns.\<close>

fun is_dict :: "pyval \<Rightarrow> bool" where
  "is_dict (PDict d) = True"
| "is_dict _ = False"

definition has_id :: "string \<Rightarrow> pyval \<Rightarrow> bool" where
  "has_id pref_id p = (py_get p ''id'' = Inr (PStr pref_id))"

text \<open>
  The ids of the records of a list, in order, as \<^verbatim>\<open>p.get("id")\<close> gives them. The ids are
  unique when every record has a string as its id and no two records have the same.
\<close>

definition record_id :: "pyval \<Rightarrow> pyexc + pyval" where
  "record_id p = py_get p ''id''"

definition has_string_id :: "pyval \<Rightarrow> bool" where
  "has_string_id p = (case record_id p of Inr (PStr s) \<Rightarrow> True | _ \<Rightarrow> False)"

definition unique_ids :: "pyval list \<Rightarrow> bool" where
  "unique_ids ps = (list_all has_string_id ps \<and> distinct (map record_id ps))"

text \<open>
  Sequences of the two mutating operations of the manager. An operation that raises leaves
  the state it had reached, and the sequence goes on from there.
\<close>

datatype operation = Add pyval string | Delete string

fun apply_operation :: "env \<Rightarrow> operation \<Rightarrow> state \<Rightarrow> state" where
  "apply_operation E (Add t s) st = snd (add_preference E t s st)"
| "apply_operation E (Delete pref_id) st = snd (delete_preference E pref_id st)"

fun run_operations :: "env \<Rightarrow> operation list \<Rightarrow> state \<Rightarrow> state" where
  "run_operations E [] st = st"
| "run_operations E (x # xs) st = run_operations E xs (apply_operation E x st)"

text \<open>An operation spares a record unless it deletes the record's id.\<close>

fun spares :: "pyval \<Rightarrow> operation \<Rightarrow> bool" where
  "spares r (Add t s) = True"
| "spares r (Delete pref_id) = (\<not> has_id pref_id r)"

text \<open>
  Freshness of the generator from a state on: no uuid still to be drawn is the id of a
  stored record, and no two uuids still to be drawn are equal.
\<close>

definition fresh_uuids :: "env \<Rightarrow> state \<Rightarrow> pyval list \<Rightarrow> bool" where
  "fresh_uuids E st ps =
     ((\<forall>k. n_uuid st \<le> k \<longrightarrow> Inr (PStr (uuid4 E k)) \<notin> set (map record_id ps))
      \<and> (\<forall>i j. n_uuid st \<le> i \<and> i < j \<longrightarrow> uuid4 E i \<noteq> uuid4 E j))"

text \<open>
  The exceptions the \<^verbatim>\<open>except\<close> clause of \<^verbatim>\<open>_load_preferences\<close> catches.
\<close>

fun caught_by_load :: "pyexc \<Rightarrow> bool" where
  "caught_by_load (JSONDecodeError m) = True"
| "caught_by_load (FileNotFoundError m) = True"
| "caught_by_load _ = False"

text \<open>
  The texts \<^verbatim>\<open>save_preference\<close> accepts, and the preference the extraction call proposes for
  saving.
\<close>

definition valid_text :: "string \<Rightarrow> bool" where
  "valid_text t = (t \<noteq> [] \<and> 3 \<le> length (strip t))"

definition llm_candidates :: "env \<Rightarrow> string \<Rightarrow> state \<Rightarrow> string list" where
  "llm_candidates E message st =
     (case fst (extract_preference_from_response E message st) of
        None \<Rightarrow> []
      | Some p \<Rightarrow> if p \<noteq> ''NONE'' then [p] else [])"

text \<open>
  Calling \<^verbatim>\<open>save_preference(text, source)\<close> for each pair of a list in turn, as a caller
  would, and the preferences a message yields with the source \<^verbatim>\<open>process_message\<close> gives them.
\<close>

fun save_each :: "env \<Rightarrow> (string \<times> string) list \<Rightarrow> state \<Rightarrow> state" where
  "save_each E [] st = st"
| "save_each E (ts # rest) st = save_each E rest (snd (save_preference E (fst ts) (snd ts) st))"

definition extracted :: "env \<Rightarrow> string \<Rightarrow> state \<Rightarrow> (string \<times> string) list" where
  "extracted E message st =
     map (\<lambda>t. (t, ''pattern_detected'')) (extract_preferences_with_pattern message)
     @ map (\<lambda>t. (t, ''llm_detected'')) (llm_candidates E message st)"

text \<open>Two states with the same store: list, file, and the counters the store draws from.\<close>

definition same_store :: "state \<Rightarrow> state \<Rightarrow> bool" where
  "same_store st st' =
     (preferences st = preferences st' \<and> storage_file st = storage_file st'
      \<and> n_uuid st = n_uuid st' \<and> n_clock st = n_clock st')"

section \<open>A concrete environment and concrete stores\<close>

text \<open>
  A small JSON renderer and a recogniser of three documents stand for the codec; the
  generators are a unary counter and a constant clock.
\<close>

fun join :: "string \<Rightarrow> string list \<Rightarrow> string" where
  "join sep [] = []"
| "join sep [x] = x"
| "join sep (x # y # ys) = x @ sep @ join sep (y # ys)"

fun decimal :: "nat \<Rightarrow> string" where
  "decimal n = (if n < 10 then [char_of (48 + n)] else decimal (n div 10) @ [char_of (48 + n mod 10)])"

fun render :: "pyval \<Rightarrow> string" where
  "render PNone = ''null''"
| "render (PBool b) = (if b then ''true'' else ''false'')"
| "render (PInt i) = (if i < 0 then ''-'' @ decimal (nat (- i)) else decimal (nat i))"
| "render (PStr s) = CHR 0x22 # s @ [CHR 0x22]"
| "render (PList xs) = ''['' @ join '', '' (map render xs) @ '']''"
| "render (PDict d) =
     ''{'' @ join '', '' (map (\<lambda>kv. CHR 0x22 # fst kv @ [CHR 0x22] @ '': '' @ render (snd kv)) d) @ ''}''"

definition example_loads :: "string \<Rightarrow> pyexc + pyval" where
  "example_loads s =
     (if s = ''[]'' then Inr (PList [])
      else if s = ''[7]'' then Inr (PList [PInt 7])
      else if s = ''{ }'' then Inr (PDict [])
      else Inl (JSONDecodeError ''Expecting value''))"

definition example_env :: env where
  "example_env =
     \<lparr>json_dumps = render,
      json_loads = example_loads,
      uuid4 = (\<lambda>k. replicate (Suc k) CHR ''u''),
      now_iso = (\<lambda>k. ''2025-01-01T00:00:00''),
      chat_completion = (\<lambda>k. Inr (PStr ''PREFERENCE: NONE''))\<rparr>"

definition empty_state :: state where
  "empty_state = initial_state (PList []) None"

definition tea :: pyval where
  "tea = PDict [(''text'', PStr ''tea''), (''source'', PStr ''manual_chat''), (''id'', PStr ''a1'')]"

definition jazz :: pyval where
  "jazz = PDict [(''text'', PStr ''jazz''), (''source'', PStr ''manual_chat''), (''id'', PStr ''b2'')]"

definition two_prefs :: state where
  "two_prefs = initial_state (PList [tea, jazz]) (Some (render (PList [tea, jazz])))"

text \<open>
  An environment whose model answers the extraction call with a given text, and the state
  \<^verbatim>\<open>__init__\<close> reaches from a file holding \<^verbatim>\<open>{ }\<close>, whose in-memory store is a dict.
\<close>

definition chat_env :: "string \<Rightarrow> env" where
  "chat_env reply =
     example_env\<lparr>chat_completion :=
       (\<lambda>k. if k = 0 then Inr (PStr reply) else Inr (PStr ''Tell me more.''))\<rparr>"

definition dict_state :: state where
  "dict_state = initial_state (PDict []) (Some ''{ }'')"

text \<open>
  An environment whose parser, like the one of the standard library, raises
  \<^verbatim>\<open>RecursionError\<close> on a text of 100000 opening brackets and \<^verbatim>\<open>ValueError\<close> on an integer
  of 5000 digits.
\<close>

definition limited_loads :: "string \<Rightarrow> pyexc + pyval" where
  "limited_loads s =
     (if s = replicate 100000 CHR ''[''
      then Inl (RecursionError ''maximum recursion depth exceeded while decoding a JSON array'')
      else if s = replicate 5000 CHR ''1''
      then Inl (ValueError ''Exceeds the limit (4300 digits) for integer string conversion'')
      else example_loads s)"

definition limited_env :: env where
  "limited_env = example_env\<lparr>json_loads := limited_loads\<rparr>"

section \<open>Basic facts about the operations\<close>

lemma add_preference_on_list:
  assumes "preferences st = PList ps"
  shows "add_preference E t s st =
           (Inr (new_pref E t s st),
            st\<lparr>n_uuid := Suc (n_uuid st),
               preferences := PList (ps @ [new_pref E t s st]),
               storage_file := Some (json_dumps E (PList (ps @ [new_pref E t s st])))\<rparr>)"
  using assms by (simp add: add_preference_def save_preferences_def Let_def)

lemma keep_other_ids_filter:
  "keep_other_ids pref_id ps = Inr r \<Longrightarrow> r = filter (\<lambda>p. \<not> has_id pref_id p) ps"
proof (induction ps arbitrary: r)
  case Nil
  then show ?case by simp
next
  case (Cons p ps)
  then show ?case
    by (auto simp: has_id_def split: sum.splits if_splits)
qed

lemma keep_other_ids_dicts:
  "list_all is_dict ps \<Longrightarrow>
     keep_other_ids pref_id ps = Inr (filter (\<lambda>p. \<not> has_id pref_id p) ps)"
proof (induction ps)
  case Nil
  show ?case by simp
next
  case (Cons p ps)
  then obtain d where d: "p = PDict d" by (cases p) auto
  from Cons have "keep_other_ids pref_id ps = Inr (filter (\<lambda>p. \<not> has_id pref_id p) ps)"
    by simp
  then show ?case using d by (simp add: has_id_def)
qed

lemma delete_preference_on_dicts:
  assumes "preferences st = PList ps" and "list_all is_dict ps"
  shows "delete_preference E pref_id st =
           (let r = filter (\<lambda>p. \<not> has_id pref_id p) ps
            in if length r < length ps
               then (Inr True, st\<lparr>preferences := PList r, storage_file := Some (json_dumps E (PList r))\<rparr>)
               else (Inr False, st\<lparr>preferences := PList r\<rparr>))"
  using assms
  by (simp add: delete_preference_def keep_other_ids_dicts save_preferences_def Let_def)

lemma filter_shorter_iff: "length (filter P xs) < length xs \<longleftrightarrow> filter (\<lambda>x. \<not> P x) xs \<noteq> []"
  by (induction xs) (auto simp: less_Suc_eq_le)

lemma filter_none_removed: "filter P xs = [] \<Longrightarrow> filter (\<lambda>x. \<not> P x) xs = xs"
  by (induction xs) (auto split: if_splits)

lemma add_preference_keeps_records:
  assumes "preferences st = PList ps" "r \<in> set ps"
  shows "\<exists>ps'. preferences (snd (add_preference E t s st)) = PList ps' \<and> r \<in> set ps'"
  using assms by (simp add: add_preference_on_list)

lemma delete_preference_keeps_others:
  assumes "preferences st = PList ps" "r \<in> set ps" "\<not> has_id pref_id r"
  shows "\<exists>ps'. preferences (snd (delete_preference E pref_id st)) = PList ps' \<and> r \<in> set ps'"
proof (cases "keep_other_ids pref_id ps")
  case (Inl e)
  then show ?thesis using assms by (simp add: delete_preference_def)
next
  case (Inr q)
  then have "q = filter (\<lambda>p. \<not> has_id pref_id p) ps" by (rule keep_other_ids_filter)
  then have "r \<in> set q" using assms by simp
  then show ?thesis
    using Inr assms(1) by (simp add: delete_preference_def save_preferences_def Let_def)
qed

lemma record_id_new_pref: "record_id (new_pref E t s st) = Inr (PStr (uuid4 E (n_uuid st)))"
  by (simp add: record_id_def new_pref_def dict_get_def)

lemma has_string_id_new_pref: "has_string_id (new_pref E t s st)"
  by (simp add: has_string_id_def record_id_new_pref)

lemma unique_ids_filter: "unique_ids xs \<Longrightarrow> unique_ids (filter P xs)"
  by (simp add: unique_ids_def list_all_iff distinct_map_filter)

text \<open>The invariant carried along a run.\<close>

lemma add_preference_keeps_unique:
  assumes "preferences st = PList ps" "unique_ids ps" "fresh_uuids E st ps"
  shows "\<exists>ps'. preferences (snd (add_preference E t s st)) = PList ps'
             \<and> unique_ids ps' \<and> fresh_uuids E (snd (add_preference E t s st)) ps'"
proof -
  let ?r = "new_pref E t s st"
  have fresh: "record_id ?r \<notin> set (map record_id ps)"
    using assms(3) by (simp add: fresh_uuids_def record_id_new_pref)
  have later: "\<And>k. Suc (n_uuid st) \<le> k \<Longrightarrow> uuid4 E k \<noteq> uuid4 E (n_uuid st)"
    using assms(3) unfolding fresh_uuids_def by (metis Suc_le_lessD le_refl)
  have "unique_ids (ps @ [?r])"
    using assms(2) fresh by (simp add: unique_ids_def has_string_id_new_pref)
  moreover have "fresh_uuids E (snd (add_preference E t s st)) (ps @ [?r])"
    using assms(3) later
    by (auto simp: fresh_uuids_def add_preference_on_list [OF assms(1)] record_id_new_pref)
  ultimately show ?thesis
    by (simp add: add_preference_on_list [OF assms(1)])
qed

lemma delete_preference_keeps_unique:
  assumes "preferences st = PList ps" "unique_ids ps" "fresh_uuids E st ps"
  shows "\<exists>ps'. preferences (snd (delete_preference E pref_id st)) = PList ps'
             \<and> unique_ids ps' \<and> fresh_uuids E (snd (delete_preference E pref_id st)) ps'"
proof (cases "keep_other_ids pref_id ps")
  case (Inl e)
  then show ?thesis using assms by (simp add: delete_preference_def fresh_uuids_def)
next
  case (Inr r)
  then have r: "r = filter (\<lambda>p. \<not> has_id pref_id p) ps" by (rule keep_other_ids_filter)
  have d: "unique_ids r" using assms(2) r by (simp add: unique_ids_filter)
  have s: "set (map record_id r) \<subseteq> set (map record_id ps)" using r by auto
  have f: "\<And>st'. n_uuid st' = n_uuid st \<Longrightarrow> fresh_uuids E st' r"
    using assms(3) s by (auto simp: fresh_uuids_def)
  show ?thesis
    using Inr assms(1) d f
    by (simp add: delete_preference_def save_preferences_def Let_def)
qed

lemma run_operations_keeps_unique:
  assumes "preferences st = PList ps" "unique_ids ps" "fresh_uuids E st ps"
  shows "\<exists>ps'. preferences (run_operations E ops st) = PList ps'
             \<and> unique_ids ps' \<and> fresh_uuids E (run_operations E ops st) ps'"
  using assms
proof (induction ops arbitrary: st ps)
  case Nil
  then show ?case by simp
next
  case (Cons x xs)
  have "\<exists>ps'. preferences (apply_operation E x st) = PList ps'
             \<and> unique_ids ps' \<and> fresh_uuids E (apply_operation E x st) ps'"
  proof (cases x)
    case (Add t s)
    then show ?thesis using add_preference_keeps_unique [OF Cons.prems] by simp
  next
    case (Delete pref_id)
    then show ?thesis using delete_preference_keeps_unique [OF Cons.prems] by simp
  qed
  then obtain ps' where "preferences (apply_operation E x st) = PList ps'"
    "unique_ids ps'" "fresh_uuids E (apply_operation E x st) ps'" by blast
  then show ?case using Cons.IH by simp
qed

text \<open>Stripping a run of one character that is not whitespace.\<close>

lemma strip_replicate: "\<not> is_space c \<Longrightarrow> strip (replicate n c) = replicate n c"
  by (simp add: strip_def dropWhile_replicate)

lemma replicate_not_braces: "c \<noteq> CHR ''{'' \<Longrightarrow> replicate n c \<noteq> ''{}''"
  by (cases n) auto

text \<open>Facts about the bot: what a save, a sequence of saves and the extraction step do.\<close>

lemma save_preference_invalid:
  "\<not> valid_text t \<Longrightarrow> save_preference E t src st = (Inr PNone, st)"
  by (auto simp: save_preference_def valid_text_def)

lemma save_preference_valid:
  assumes "preferences st = PList ps" and "valid_text t"
  shows "\<exists>r v st'. save_preference E t src st = (Inr v, st')
           \<and> preferences st' = PList (ps @ [r])
           \<and> storage_file st' = Some (json_dumps E (PList (ps @ [r])))
           \<and> n_chat st' = n_chat st \<and> conversations st' = conversations st"
  using assms
  by (simp add: save_preference_def valid_text_def get_timestamp_def add_preference_def
        save_preferences_def Let_def)

lemma save_preference_same_store:
  assumes "same_store st st'"
  shows "fst (save_preference E t src st) = fst (save_preference E t src st')
       \<and> same_store (snd (save_preference E t src st)) (snd (save_preference E t src st'))"
  using assms
  by (cases "preferences st'")
     (simp_all add: same_store_def save_preference_def get_timestamp_def add_preference_def
        save_preferences_def new_pref_def Let_def)

lemma save_preference_n_chat:
  "n_chat (snd (save_preference E t src st)) = n_chat st"
  by (cases "preferences st")
     (simp_all add: save_preference_def get_timestamp_def add_preference_def
        save_preferences_def Let_def)

lemma same_store_refl: "same_store st st"
  by (simp add: same_store_def)

lemma same_store_trans: "same_store a b \<Longrightarrow> same_store b c \<Longrightarrow> same_store a c"
  by (simp add: same_store_def)

lemma save_each_same_store:
  "same_store st st' \<Longrightarrow> same_store (save_each E xs st) (save_each E xs st')"
proof (induction xs arbitrary: st st')
  case Nil
  then show ?case by simp
next
  case (Cons x xs)
  then show ?case using save_preference_same_store [of st st' E "fst x" "snd x"] by simp
qed

lemma save_each_append: "save_each E (xs @ ys) st = save_each E ys (save_each E xs st)"
  by (induction xs arbitrary: st) simp_all

lemma save_each_n_chat: "n_chat (save_each E xs st) = n_chat st"
  by (induction xs arbitrary: st) (simp_all add: save_preference_n_chat)

lemma save_each_on_list:
  assumes "preferences st = PList ps"
  shows "\<exists>rs. preferences (save_each E xs st) = PList (ps @ rs)
           \<and> length rs = length (filter valid_text (map fst xs))
           \<and> (rs \<noteq> [] \<longrightarrow> storage_file (save_each E xs st) = Some (json_dumps E (PList (ps @ rs))))
           \<and> (rs = [] \<longrightarrow> storage_file (save_each E xs st) = storage_file st)"
  using assms
proof (induction xs arbitrary: st ps)
  case Nil
  then show ?case by simp
next
  case (Cons x xs)
  show ?case
  proof (cases "valid_text (fst x)")
    case False
    then have "save_each E (x # xs) st = save_each E xs st"
      by (simp add: save_preference_invalid)
    then show ?thesis using Cons.IH [OF Cons.prems] False by simp
  next
    case True
    from save_preference_valid [OF Cons.prems True, of E "snd x"]
    obtain r v st1 where s: "save_preference E (fst x) (snd x) st = (Inr v, st1)"
      and p: "preferences st1 = PList (ps @ [r])"
      and f: "storage_file st1 = Some (json_dumps E (PList (ps @ [r])))"
      by blast
    from Cons.IH [OF p]
    obtain rs where b: "preferences (save_each E xs st1) = PList ((ps @ [r]) @ rs)"
      and m: "length rs = length (filter valid_text (map fst xs))"
      and g: "rs \<noteq> [] \<longrightarrow>
                storage_file (save_each E xs st1) = Some (json_dumps E (PList ((ps @ [r]) @ rs)))"
      and h: "rs = [] \<longrightarrow> storage_file (save_each E xs st1) = storage_file st1"
      by blast
    have e: "save_each E (x # xs) st = save_each E xs st1" using s by simp
    have "preferences (save_each E (x # xs) st) = PList (ps @ (r # rs))" using b e by simp
    moreover have "length (r # rs) = length (filter valid_text (map fst (x # xs)))"
      using m True by simp
    moreover have "storage_file (save_each E (x # xs) st)
        = Some (json_dumps E (PList (ps @ (r # rs))))"
      using f g h e by (cases "rs = []") simp_all
    ultimately show ?thesis by blast
  qed
qed

lemma save_all_is_save_each:
  assumes "preferences st = PList ps"
  shows "save_all E ts src st = (Inr (), save_each E (map (\<lambda>t. (t, src)) ts) st)"
  using assms
proof (induction ts arbitrary: st ps)
  case Nil
  then show ?case by simp
next
  case (Cons t ts)
  show ?case
  proof (cases "valid_text t")
    case False
    then show ?thesis using Cons.IH [OF Cons.prems] by (simp add: save_preference_invalid)
  next
    case True
    from save_preference_valid [OF Cons.prems True, of E src]
    obtain r v st1 where s: "save_preference E t src st = (Inr v, st1)"
      and p: "preferences st1 = PList (ps @ [r])"
      by blast
    then show ?thesis using Cons.IH [OF p] by simp
  qed
qed

lemma generate_response_state:
  "snd (generate_response E st) = st\<lparr>n_chat := Suc (n_chat st)\<rparr>"
  by (simp add: generate_response_def)

lemma generate_response_value:
  "n_chat st' = n_chat st \<Longrightarrow> fst (generate_response E st') = fst (generate_response E st)"
  by (simp add: generate_response_def)

lemma extract_preference_from_response_state:
  "snd (extract_preference_from_response E m st) = st\<lparr>n_chat := Suc (n_chat st)\<rparr>"
  unfolding extract_preference_from_response_def
  by (simp only: split_beta Let_def snd_conv generate_response_state)

lemma extract_preference_from_response_value:
  assumes "n_chat st' = n_chat st"
  shows "fst (extract_preference_from_response E m st') = fst (extract_preference_from_response E m st)"
  unfolding extract_preference_from_response_def
  by (simp only: split_beta Let_def fst_conv generate_response_value [OF assms])

lemma llm_candidates_cong:
  assumes "n_chat st' = n_chat st"
  shows "llm_candidates E m st' = llm_candidates E m st"
  by (simp only: llm_candidates_def extract_preference_from_response_value [OF assms])

lemma llm_extraction_step_on_list:
  assumes "preferences st = PList ps"
  shows "\<exists>d st'. llm_extraction_step E m pats st = (Inr d, st')
           \<and> same_store st'
                (save_each E (map (\<lambda>t. (t, ''llm_detected'')) (llm_candidates E m st)) st)"
proof -
  let ?st1 = "st\<lparr>n_chat := Suc (n_chat st)\<rparr>"
  have st1: "snd (extract_preference_from_response E m st) = ?st1"
    by (rule extract_preference_from_response_state)
  have p1: "preferences ?st1 = PList ps" using assms by simp
  have ss: "same_store ?st1 st" by (simp add: same_store_def)
  show ?thesis
  proof (cases "fst (extract_preference_from_response E m st)")
    case None
    then have "llm_extraction_step E m pats st = (Inr (first_or_none pats), ?st1)"
      using st1 by (simp add: llm_extraction_step_def split_beta)
    then show ?thesis using None ss by (simp add: llm_candidates_def)
  next
    case (Some p)
    show ?thesis
    proof (cases "p = ''NONE''")
      case True
      then have "llm_extraction_step E m pats st = (Inr (first_or_none pats), ?st1)"
        using Some st1 by (simp add: llm_extraction_step_def split_beta)
      then show ?thesis using Some True ss by (simp add: llm_candidates_def)
    next
      case False
      then have c: "llm_candidates E m st = [p]" using Some by (simp add: llm_candidates_def)
      have t: "same_store (snd (save_preference E p ''llm_detected'' ?st1))
                 (snd (save_preference E p ''llm_detected'' st))"
        using save_preference_same_store [OF ss] by blast
      show ?thesis
      proof (cases "valid_text p")
        case True
        from save_preference_valid [OF p1 True, of E "''llm_detected''"]
        obtain v st' where s: "save_preference E p ''llm_detected'' ?st1 = (Inr v, st')"
          by blast
        have "p \<noteq> []" using True by (simp add: valid_text_def)
        then have "llm_extraction_step E m pats st = (Inr (Some p), st')"
          using Some st1 False s by (simp add: llm_extraction_step_def split_beta)
        then show ?thesis using c t s by simp
      next
        case inv: False
        have s: "save_preference E p ''llm_detected'' ?st1 = (Inr PNone, ?st1)"
          using inv by (rule save_preference_invalid)
        have "\<exists>d. llm_extraction_step E m pats st = (Inr d, ?st1)"
          using Some st1 s by (simp add: llm_extraction_step_def split_beta)
        then show ?thesis using c t s by auto
      qed
    qed
  qed
qed

lemma process_message_on_list:
  assumes "preferences st = PList ps"
  shows "\<exists>response detected st'.
           process_message E user_id message st = (Inr (response, detected), st')
         \<and> same_store st' (save_each E (extracted E message st) st)"
proof -
  let ?pats = "extract_preferences_with_pattern message"
  let ?px = "map (\<lambda>t. (t, ''pattern_detected'')) ?pats"
  let ?lx = "map (\<lambda>t. (t, ''llm_detected'')) (llm_candidates E message st)"
  let ?st0 = "record_message user_id ''user'' (PStr message) st"
  have p0: "preferences ?st0 = PList ps" and n0: "n_chat ?st0 = n_chat st"
    and s0: "same_store ?st0 st"
    using assms by (simp_all add: record_message_def same_store_def)
  let ?st1 = "save_each E ?px ?st0"
  have a: "save_all E ?pats ''pattern_detected'' ?st0 = (Inr (), ?st1)"
    by (rule save_all_is_save_each [OF p0])
  obtain rs where p1: "preferences ?st1 = PList (ps @ rs)"
    using save_each_on_list [OF p0, of E ?px] by blast
  have s1: "same_store ?st1 (save_each E ?px st)"
    by (rule save_each_same_store [OF s0])
  have c: "llm_candidates E message ?st1 = llm_candidates E message st"
    by (rule llm_candidates_cong) (simp add: save_each_n_chat n0)
  from llm_extraction_step_on_list [OF p1, of E message ?pats]
  obtain d st2 where b: "llm_extraction_step E message ?pats ?st1 = (Inr d, st2)"
    and s2: "same_store st2 (save_each E ?lx ?st1)"
    using c by auto
  have s2': "same_store st2 (save_each E (?px @ ?lx) st)"
    using s2 save_each_same_store [OF s1, of E ?lx]
    by (simp only: save_each_append) (rule same_store_trans)
  let ?st3 = "st2\<lparr>n_chat := Suc (n_chat st2)\<rparr>"
  obtain resp where g: "generate_response E st2 = (resp, ?st3)"
    using generate_response_state [of E st2] by (metis prod.collapse)
  let ?st4 = "record_message user_id ''assistant'' resp ?st3"
  have r: "process_message E user_id message st = (Inr (resp, d), ?st4)"
    unfolding process_message_def by (simp only: Let_def a b g split_conv sum.case)
  have "same_store ?st4 st2" by (simp add: same_store_def record_message_def)
  then have "same_store ?st4 (save_each E (extracted E message st) st)"
    using s2' by (simp only: extracted_def) (rule same_store_trans)
  then show ?thesis using r by blast
qed

section \<open>The preference store\<close>

text \<open>
  C1. A record saved through \<^verbatim>\<open>save_preference(t, s)\<close> should hold the text \<open>t\<close> and the source
  \<open>s\<close>. The code hands the whole record it built to \<^verbatim>\<open>add_preference\<close> as the text and
  passes no source: for \<^verbatim>\<open>save_preference("I love tea", "manual_input")\<close> on the empty store
  the stored record has a dict as its text and the source \<^verbatim>\<open>"manual_chat"\<close>.
\<close>

theorem save_preference_stores_wrapper:
  "preferences (snd (save_preference example_env ''I love tea'' ''manual_input'' empty_state))
     = PList [PDict [(''text'', PDict [(''id'', PStr ''u''), (''text'', PStr ''I love tea''),
                                       (''source'', PStr ''manual_input''),
                                       (''timestamp'', PStr ''2025-01-01T00:00:00'')]),
                     (''source'', PStr ''manual_chat''),
                     (''id'', PStr ''uu'')]]"
  by (simp add: save_preference_def add_preference_def new_pref_def save_preferences_def
        get_timestamp_def example_env_def empty_state_def initial_state_def strip_def
        is_space_def Let_def)

text \<open>
  C2. The store is not append-only: \<^verbatim>\<open>delete_preference\<close> removes the record with the given
  id. Here the record \<open>tea\<close> is in the list before the deletion of its id and not after.
\<close>

theorem delete_preference_removes_record:
  "preferences two_prefs = PList [tea, jazz] \<and> tea \<in> set [tea, jazz]
   \<and> preferences (run_operations example_env [Delete ''a1''] two_prefs) = PList [jazz]
   \<and> tea \<notin> set [jazz]"
  by (simp add: two_prefs_def initial_state_def tea_def jazz_def delete_preference_def
        save_preferences_def dict_get_def Let_def)

text \<open>
  C2, as the code has it. Along every sequence of \<^verbatim>\<open>add_preference\<close> and
  \<^verbatim>\<open>delete_preference\<close> operations on a list, a record present in the list remains present
  as long as no \<^verbatim>\<open>delete_preference\<close> is called with that record's id.
\<close>

theorem records_stay_unless_deleted:
  assumes "preferences st = PList ps" and "r \<in> set ps" and "list_all (spares r) ops"
  shows "\<exists>ps'. preferences (run_operations E ops st) = PList ps' \<and> r \<in> set ps'"
  using assms
proof (induction ops arbitrary: st ps)
  case Nil
  then show ?case by simp
next
  case (Cons x xs)
  have "\<exists>ps'. preferences (apply_operation E x st) = PList ps' \<and> r \<in> set ps'"
  proof (cases x)
    case (Add t s)
    then show ?thesis using add_preference_keeps_records [OF Cons.prems(1,2)] by simp
  next
    case (Delete pref_id)
    then have "\<not> has_id pref_id r" using Cons.prems(3) by simp
    then show ?thesis
      using Delete delete_preference_keeps_others [OF Cons.prems(1,2)] by simp
  qed
  then obtain ps' where "preferences (apply_operation E x st) = PList ps'" "r \<in> set ps'"
    by blast
  then show ?case using Cons.IH [of "apply_operation E x st" ps'] Cons.prems(3) by simp
qed

theorem records_stay_unless_deleted_witness:
  "preferences two_prefs = PList [tea, jazz] \<and> jazz \<in> set [tea, jazz]
   \<and> list_all (spares jazz) [Delete ''a1'', Add (PStr ''rain'') ''manual_chat'']
   \<and> (\<exists>ps'. preferences (run_operations example_env
                 [Delete ''a1'', Add (PStr ''rain'') ''manual_chat''] two_prefs) = PList ps'
            \<and> jazz \<in> set ps')"
proof -
  have a: "preferences two_prefs = PList [tea, jazz]"
    by (simp add: two_prefs_def initial_state_def)
  have b: "jazz \<in> set [tea, jazz]" by simp
  have c: "list_all (spares jazz) [Delete ''a1'', Add (PStr ''rain'') ''manual_chat'']"
    by (simp add: has_id_def jazz_def dict_get_def)
  show ?thesis using a b c records_stay_unless_deleted [OF a b c, of example_env] by blast
qed

text \<open>
  C3. From a list in which every record has a string id and no two records have the same
  id, with a generator whose uuids are fresh, every sequence of \<^verbatim>\<open>add_preference\<close> and
  \<^verbatim>\<open>delete_preference\<close> operations leads to a list in which every record has a string id and
  no two records have the same id.
\<close>

theorem ids_stay_unique:
  assumes "preferences st = PList ps" and "unique_ids ps" and "fresh_uuids E st ps"
  shows "\<exists>ps'. preferences (run_operations E ops st) = PList ps'
           \<and> list_all has_string_id ps' \<and> distinct (map record_id ps')"
  using run_operations_keeps_unique [OF assms] by (auto simp: unique_ids_def)

theorem ids_stay_unique_witness:
  "preferences two_prefs = PList [tea, jazz] \<and> unique_ids [tea, jazz]
   \<and> fresh_uuids example_env two_prefs [tea, jazz]
   \<and> preferences (run_operations example_env
         [Add (PStr ''rain'') ''manual_chat'', Delete ''a1'', Add (PStr ''snow'') ''manual_chat'']
         two_prefs)
       = PList [jazz,
                PDict [(''text'', PStr ''rain''), (''source'', PStr ''manual_chat''), (''id'', PStr ''u'')],
                PDict [(''text'', PStr ''snow''), (''source'', PStr ''manual_chat''), (''id'', PStr ''uu'')]]
   \<and> map record_id [jazz,
                PDict [(''text'', PStr ''rain''), (''source'', PStr ''manual_chat''), (''id'', PStr ''u'')],
                PDict [(''text'', PStr ''snow''), (''source'', PStr ''manual_chat''), (''id'', PStr ''uu'')]]
       = [Inr (PStr ''b2''), Inr (PStr ''u''), Inr (PStr ''uu'')]
   \<and> (\<exists>ps'. preferences (run_operations example_env
                 [Add (PStr ''rain'') ''manual_chat'', Delete ''a1'', Add (PStr ''snow'') ''manual_chat'']
                 two_prefs) = PList ps'
            \<and> list_all has_string_id ps' \<and> distinct (map record_id ps'))"
proof -
  have a: "preferences two_prefs = PList [tea, jazz]"
    by (simp add: two_prefs_def initial_state_def)
  have b: "unique_ids [tea, jazz]"
    by (simp add: unique_ids_def has_string_id_def record_id_def tea_def jazz_def dict_get_def)
  have c: "fresh_uuids example_env two_prefs [tea, jazz]"
    by (auto simp: fresh_uuids_def example_env_def record_id_def tea_def jazz_def dict_get_def)
  have d: "preferences (run_operations example_env
         [Add (PStr ''rain'') ''manual_chat'', Delete ''a1'', Add (PStr ''snow'') ''manual_chat'']
         two_prefs)
       = PList [jazz,
                PDict [(''text'', PStr ''rain''), (''source'', PStr ''manual_chat''), (''id'', PStr ''u'')],
                PDict [(''text'', PStr ''snow''), (''source'', PStr ''manual_chat''), (''id'', PStr ''uu'')]]"
    by code_simp
  have e: "map record_id [jazz,
                PDict [(''text'', PStr ''rain''), (''source'', PStr ''manual_chat''), (''id'', PStr ''u'')],
                PDict [(''text'', PStr ''snow''), (''source'', PStr ''manual_chat''), (''id'', PStr ''uu'')]]
       = [Inr (PStr ''b2''), Inr (PStr ''u''), Inr (PStr ''uu'')]"
    by code_simp
  show ?thesis using a b c d e ids_stay_unique [OF a b c] by blast
qed

text \<open>
  C4. \<^verbatim>\<open>add_preference\<close> returns the new record and appends it at the end of the list: the
  records stored before are unchanged and in their order, and \<^verbatim>\<open>get_preferences\<close> returns the
  list in that order.
\<close>

theorem add_preference_appends:
  assumes "preferences st = PList ps"
  shows "fst (add_preference E t s st) = Inr (new_pref E t s st)
       \<and> preferences (snd (add_preference E t s st)) = PList (ps @ [new_pref E t s st])
       \<and> get_preferences (snd (add_preference E t s st)) = PList (ps @ [new_pref E t s st])"
  using assms by (simp add: add_preference_on_list get_preferences_def)

theorem add_preference_appends_witness:
  "preferences two_prefs = PList [tea, jazz]
   \<and> get_preferences (snd (add_preference example_env (PStr ''rain'') ''manual_chat'' two_prefs))
       = PList [tea, jazz, PDict [(''text'', PStr ''rain''), (''source'', PStr ''manual_chat''), (''id'', PStr ''u'')]]"
  using add_preference_appends [of two_prefs "[tea, jazz]" example_env "PStr ''rain''" "''manual_chat''"]
  by (simp add: two_prefs_def initial_state_def new_pref_def example_env_def)

text \<open>
  C5. After every \<^verbatim>\<open>add_preference\<close> on a list, and after every \<^verbatim>\<open>delete_preference\<close> that
  returns \<^verbatim>\<open>True\<close> (it removed a record), the storage file holds the dump of the whole
  in-memory list.
\<close>

theorem mutation_rewrites_file:
  "(preferences st = PList ps \<longrightarrow>
      storage_file (snd (add_preference E t s st))
        = Some (json_dumps E (preferences (snd (add_preference E t s st)))))
   \<and> (fst (delete_preference E pref_id st) = Inr True \<longrightarrow>
      storage_file (snd (delete_preference E pref_id st))
        = Some (json_dumps E (preferences (snd (delete_preference E pref_id st)))))"
  by (auto simp: add_preference_on_list delete_preference_def save_preferences_def Let_def
           split: sum.splits if_splits)

theorem mutation_rewrites_file_witness:
  "preferences two_prefs = PList [tea, jazz]
   \<and> storage_file (snd (add_preference example_env (PStr ''rain'') ''manual_chat'' two_prefs))
       = Some (render (PList [tea, jazz,
            PDict [(''text'', PStr ''rain''), (''source'', PStr ''manual_chat''), (''id'', PStr ''u'')]]))
   \<and> fst (delete_preference example_env ''a1'' two_prefs) = Inr True
   \<and> storage_file (snd (delete_preference example_env ''a1'' two_prefs)) = Some (render (PList [jazz]))"
proof -
  have a: "preferences two_prefs = PList [tea, jazz]"
    by (simp add: two_prefs_def initial_state_def)
  have b: "fst (delete_preference example_env ''a1'' two_prefs) = Inr True"
    by (simp add: two_prefs_def initial_state_def tea_def jazz_def delete_preference_def
          dict_get_def Let_def)
  have c: "preferences (snd (add_preference example_env (PStr ''rain'') ''manual_chat'' two_prefs))
      = PList [tea, jazz, PDict [(''text'', PStr ''rain''), (''source'', PStr ''manual_chat''), (''id'', PStr ''u'')]]"
    by (simp add: add_preference_on_list [OF a] new_pref_def)
       (simp add: two_prefs_def initial_state_def example_env_def)
  have d: "preferences (snd (delete_preference example_env ''a1'' two_prefs)) = PList [jazz]"
    by (simp add: two_prefs_def initial_state_def tea_def jazz_def delete_preference_def
          save_preferences_def dict_get_def Let_def)
  have e: "json_dumps example_env = render" by (simp add: example_env_def)
  show ?thesis
    using mutation_rewrites_file [of two_prefs "[tea, jazz]" example_env "PStr ''rain''"
        "''manual_chat''" "''a1''"] a b c d e
    by simp
qed

text \<open>
  C6. \<^verbatim>\<open>__init__\<close> can raise on a file that exists: the \<^verbatim>\<open>except\<close> clause of
  \<^verbatim>\<open>_load_preferences\<close> catches \<^verbatim>\<open>JSONDecodeError\<close> and \<^verbatim>\<open>FileNotFoundError\<close> only. With a
  parser that raises \<^verbatim>\<open>RecursionError\<close> on 100000 opening brackets (not valid JSON) and
  \<^verbatim>\<open>ValueError\<close> on an integer of 5000 digits (valid JSON), as the parser of the standard
  library does, \<^verbatim>\<open>__init__\<close> raises on both files.
\<close>

theorem init_raises_on_parser_limits:
  "json_loads limited_env (strip (replicate 100000 CHR ''[''))
     = Inl (RecursionError ''maximum recursion depth exceeded while decoding a JSON array'')
   \<and> init limited_env (Some (replicate 100000 CHR ''[''))
     = Inl (RecursionError ''maximum recursion depth exceeded while decoding a JSON array'')
   \<and> json_loads limited_env (strip (replicate 5000 CHR ''1''))
     = Inl (ValueError ''Exceeds the limit (4300 digits) for integer string conversion'')
   \<and> init limited_env (Some (replicate 5000 CHR ''1''))
     = Inl (ValueError ''Exceeds the limit (4300 digits) for integer string conversion'')"
proof -
  have s: "strip (replicate 100000 CHR ''['') = replicate 100000 CHR ''[''"
    "strip (replicate 5000 CHR ''1'') = replicate 5000 CHR ''1''"
    by (simp_all add: strip_replicate is_space_def)
  have n: "replicate 100000 CHR ''['' \<noteq> []" "replicate 100000 CHR ''['' \<noteq> ''{}''"
    "replicate 5000 CHR ''1'' \<noteq> []" "replicate 5000 CHR ''1'' \<noteq> ''{}''"
    by (simp_all add: replicate_not_braces)
  have l: "json_loads limited_env (replicate 100000 CHR ''['')
      = Inl (RecursionError ''maximum recursion depth exceeded while decoding a JSON array'')"
    "json_loads limited_env (replicate 5000 CHR ''1'')
      = Inl (ValueError ''Exceeds the limit (4300 digits) for integer string conversion'')"
    by (simp_all add: limited_env_def limited_loads_def)
  show ?thesis
    using s n l by (simp add: init_def load_preferences_def Let_def)
qed

text \<open>
  C6, as the code has it. \<^verbatim>\<open>__init__\<close> sets the in-memory list, leaving the file as it is,
  to: the empty list when the file is missing, when its stripped text is empty or \<^verbatim>\<open>{}\<close>,
  or when \<^verbatim>\<open>json.loads\<close> raises an exception the \<^verbatim>\<open>except\<close> clause catches
  (\<^verbatim>\<open>JSONDecodeError\<close>); the value \<^verbatim>\<open>json.loads\<close> returns for the stripped text otherwise. It
  does not raise in these cases. Any other exception of \<^verbatim>\<open>json.loads\<close> propagates.
\<close>

theorem init_loads_wholesale:
  "(\<exists>st. init E None = Inr st \<and> preferences st = PList [] \<and> storage_file st = None)
   \<and> (strip content = [] \<or> strip content = ''{}'' \<longrightarrow>
        (\<exists>st. init E (Some content) = Inr st \<and> preferences st = PList []
              \<and> storage_file st = Some content))
   \<and> (json_loads E (strip content) = Inl e \<and> caught_by_load e \<longrightarrow>
        (\<exists>st. init E (Some content) = Inr st \<and> preferences st = PList []
              \<and> storage_file st = Some content))
   \<and> (strip content \<noteq> [] \<and> strip content \<noteq> ''{}'' \<and> json_loads E (strip content) = Inr v \<longrightarrow>
        (\<exists>st. init E (Some content) = Inr st \<and> preferences st = v
              \<and> storage_file st = Some content))
   \<and> (strip content \<noteq> [] \<and> strip content \<noteq> ''{}'' \<and> json_loads E (strip content) = Inl e
        \<and> \<not> caught_by_load e \<longrightarrow>
        init E (Some content) = Inl e)"
proof -
  have caught: "json_loads E (strip content) = Inl e \<Longrightarrow> caught_by_load e \<Longrightarrow>
      load_preferences E (Some content) = Inr (PList [])"
    by (cases e) (simp_all add: load_preferences_def Let_def)
  have other: "strip content \<noteq> [] \<Longrightarrow> strip content \<noteq> ''{}'' \<Longrightarrow>
      json_loads E (strip content) = Inl e \<Longrightarrow> \<not> caught_by_load e \<Longrightarrow>
      load_preferences E (Some content) = Inl e"
    by (cases e) (simp_all add: load_preferences_def Let_def)
  show ?thesis
    using caught other
    by (auto simp: init_def initial_state_def load_preferences_def Let_def)
qed

theorem init_loads_wholesale_witness:
  "(\<exists>st. init example_env None = Inr st \<and> preferences st = PList [] \<and> storage_file st = None)
   \<and> strip [CHR '' '', CHR 0x0A] = []
   \<and> (\<exists>st. init example_env (Some [CHR '' '', CHR 0x0A]) = Inr st \<and> preferences st = PList []
            \<and> storage_file st = Some [CHR '' '', CHR 0x0A])
   \<and> strip '' {} '' = ''{}''
   \<and> (\<exists>st. init example_env (Some '' {} '') = Inr st \<and> preferences st = PList []
            \<and> storage_file st = Some '' {} '')
   \<and> json_loads example_env (strip ''[7'') = Inl (JSONDecodeError ''Expecting value'')
   \<and> caught_by_load (JSONDecodeError ''Expecting value'')
   \<and> (\<exists>st. init example_env (Some ''[7'') = Inr st \<and> preferences st = PList []
            \<and> storage_file st = Some ''[7'')
   \<and> json_loads example_env (strip '' [7] '') = Inr (PList [PInt 7])
   \<and> (\<exists>st. init example_env (Some '' [7] '') = Inr st \<and> preferences st = PList [PInt 7]
            \<and> storage_file st = Some '' [7] '')
   \<and> json_loads limited_env (strip (replicate 100000 CHR ''[''))
       = Inl (RecursionError ''maximum recursion depth exceeded while decoding a JSON array'')
   \<and> init limited_env (Some (replicate 100000 CHR ''[''))
       = Inl (RecursionError ''maximum recursion depth exceeded while decoding a JSON array'')"
proof -
  let ?deep = "replicate 100000 CHR ''[''"
  let ?rec = "RecursionError ''maximum recursion depth exceeded while decoding a JSON array''"
  have s: "strip [CHR '' '', CHR 0x0A] = []" "strip '' {} '' = ''{}''" "strip ''[7'' = ''[7''"
    "strip '' [7] '' = ''[7]''"
    by (simp_all add: strip_def is_space_def)
  have l: "json_loads example_env ''[7'' = Inl (JSONDecodeError ''Expecting value'')"
    "json_loads example_env ''[7]'' = Inr (PList [PInt 7])"
    by (simp_all add: example_env_def example_loads_def)
  have d: "strip ?deep = ?deep" "?deep \<noteq> []" "?deep \<noteq> ''{}''"
    by (simp_all add: strip_replicate is_space_def replicate_not_braces)
  have r: "json_loads limited_env ?deep = Inl ?rec"
    by (simp add: limited_env_def limited_loads_def)
  show ?thesis
    using init_loads_wholesale [of example_env "[CHR '' '', CHR 0x0A]" "JSONDecodeError ''Expecting value''" "PList []"]
      init_loads_wholesale [of example_env "'' {} ''" "JSONDecodeError ''Expecting value''" "PList []"]
      init_loads_wholesale [of example_env "''[7''" "JSONDecodeError ''Expecting value''" "PList []"]
      init_loads_wholesale [of example_env "'' [7] ''" "JSONDecodeError ''Expecting value''" "PList [PInt 7]"]
      init_loads_wholesale [of limited_env ?deep ?rec "PList []"]
      s l d r
    by simp
qed

text \<open>
  C9. For a text that is empty or whose stripped length is below 3, \<^verbatim>\<open>save_preference\<close>
  returns \<^verbatim>\<open>None\<close> and leaves the whole state (in-memory list and storage file) unchanged.
\<close>

theorem save_preference_rejects_short:
  assumes "preference_text = [] \<or> length (strip preference_text) < 3"
  shows "save_preference E preference_text source st = (Inr PNone, st)"
  using assms by (simp add: save_preference_def)

theorem save_preference_rejects_short_witness:
  "length (strip ''  ok  '') < 3
   \<and> save_preference example_env ''  ok  '' ''manual_input'' two_prefs = (Inr PNone, two_prefs)
   \<and> save_preference example_env [] ''manual_input'' two_prefs = (Inr PNone, two_prefs)"
  using save_preference_rejects_short [of "''  ok  ''" example_env "''manual_input''" two_prefs]
        save_preference_rejects_short [of "[]" example_env "''manual_input''" two_prefs]
  by (simp add: strip_def is_space_def)

text \<open>
  C10. On a list of records, \<^verbatim>\<open>delete_preference(pref_id)\<close> keeps exactly the records whose
  id is not \<open>pref_id\<close>, in their order; it returns \<^verbatim>\<open>True\<close> iff some record had that id; and
  when none had, the state (in-memory list and storage file) is unchanged.
\<close>

theorem delete_preference_filters:
  assumes "preferences st = PList ps" and "list_all is_dict ps"
  shows "fst (delete_preference E pref_id st) = Inr (filter (has_id pref_id) ps \<noteq> [])
       \<and> preferences (snd (delete_preference E pref_id st))
           = PList (filter (\<lambda>p. \<not> has_id pref_id p) ps)
       \<and> (filter (has_id pref_id) ps = [] \<longrightarrow> snd (delete_preference E pref_id st) = st)"
proof -
  let ?r = "filter (\<lambda>p. \<not> has_id pref_id p) ps"
  have len: "length ?r < length ps \<longleftrightarrow> filter (has_id pref_id) ps \<noteq> []"
    using filter_shorter_iff [of "\<lambda>p. \<not> has_id pref_id p" ps] by simp
  have same: "filter (has_id pref_id) ps = [] \<Longrightarrow> ?r = ps"
    by (rule filter_none_removed)
  show ?thesis
    using assms len same
    by (auto simp: delete_preference_on_dicts Let_def)
qed

theorem delete_preference_filters_witness:
  "preferences two_prefs = PList [tea, jazz] \<and> list_all is_dict [tea, jazz]
   \<and> filter (has_id ''a1'') [tea, jazz] = [tea]
   \<and> fst (delete_preference example_env ''a1'' two_prefs) = Inr True
   \<and> preferences (snd (delete_preference example_env ''a1'' two_prefs)) = PList [jazz]
   \<and> filter (has_id ''zz'') [tea, jazz] = []
   \<and> fst (delete_preference example_env ''zz'' two_prefs) = Inr False
   \<and> snd (delete_preference example_env ''zz'' two_prefs) = two_prefs"
proof -
  have a: "preferences two_prefs = PList [tea, jazz]" and b: "list_all is_dict [tea, jazz]"
    by (simp_all add: two_prefs_def initial_state_def tea_def jazz_def)
  have c: "filter (has_id ''a1'') [tea, jazz] = [tea]"
     "filter (\<lambda>p. \<not> has_id ''a1'' p) [tea, jazz] = [jazz]"
     "filter (has_id ''zz'') [tea, jazz] = []"
    by (simp_all add: has_id_def tea_def jazz_def dict_get_def)
  show ?thesis
    using delete_preference_filters [OF a b, of example_env "''a1''"]
      delete_preference_filters [OF a b, of example_env "''zz''"] a b c
    by simp
qed

section \<open>Processing a message\<close>

text \<open>
  C7. Not every extracted preference is saved: \<^verbatim>\<open>save_preference\<close> drops a text whose
  stripped length is below 3. Here the model answers \<^verbatim>\<open>PREFERENCE: TV\<close>; \<^verbatim>\<open>process_message\<close>
  reports \<^verbatim>\<open>TV\<close> as the detected preference, and the list and the file are as before.
\<close>

theorem short_preference_is_not_saved:
  "fst (extract_preference_from_response (chat_env ''PREFERENCE: TV'') ''I watch TV'' empty_state)
     = Some ''TV''
   \<and> fst (process_message (chat_env ''PREFERENCE: TV'') ''user1'' ''I watch TV'' empty_state)
     = Inr (PStr ''Tell me more.'', Some ''TV'')
   \<and> preferences (snd (process_message (chat_env ''PREFERENCE: TV'') ''user1'' ''I watch TV'' empty_state))
     = PList []
   \<and> storage_file (snd (process_message (chat_env ''PREFERENCE: TV'') ''user1'' ''I watch TV'' empty_state))
     = None"
  by code_simp

text \<open>
  C7, as the code has it. On a list, \<^verbatim>\<open>process_message\<close> does not raise and leaves the
  store (list and file) that calling \<^verbatim>\<open>save_preference\<close> leaves, in turn, for each preference
  produced by the patterns (source \<^verbatim>\<open>pattern_detected\<close>) and then for the preference other
  than \<^verbatim>\<open>NONE\<close> produced by the extraction call (source \<^verbatim>\<open>llm_detected\<close>): one record is
  appended after the records already stored for each of these texts that
  \<^verbatim>\<open>save_preference\<close> accepts (non-empty, stripped length at least 3), none for the others,
  and when a record was appended the file holds the dump of the list.
\<close>

theorem process_message_saves_accepted:
  assumes "preferences st = PList ps"
  shows "preferences (snd (process_message E user_id message st))
           = preferences (save_each E (extracted E message st) st)
       \<and> storage_file (snd (process_message E user_id message st))
           = storage_file (save_each E (extracted E message st) st)
       \<and> (\<exists>rs. preferences (snd (process_message E user_id message st)) = PList (ps @ rs)
             \<and> length rs = length (filter valid_text (map fst (extracted E message st)))
             \<and> (rs \<noteq> [] \<longrightarrow>
                  storage_file (snd (process_message E user_id message st))
                    = Some (json_dumps E (PList (ps @ rs))))
             \<and> (rs = [] \<longrightarrow>
                  storage_file (snd (process_message E user_id message st)) = storage_file st))
       \<and> (\<exists>response detected.
             fst (process_message E user_id message st) = Inr (response, detected))"
proof -
  from process_message_on_list [OF assms, of E user_id message]
  obtain response detected st' where
    r: "process_message E user_id message st = (Inr (response, detected), st')"
    and s: "same_store st' (save_each E (extracted E message st) st)"
    by blast
  from save_each_on_list [OF assms, of E "extracted E message st"]
  obtain rs where "preferences (save_each E (extracted E message st) st) = PList (ps @ rs)"
    "length rs = length (filter valid_text (map fst (extracted E message st)))"
    "rs \<noteq> [] \<longrightarrow> storage_file (save_each E (extracted E message st) st)
        = Some (json_dumps E (PList (ps @ rs)))"
    "rs = [] \<longrightarrow> storage_file (save_each E (extracted E message st) st) = storage_file st"
    by blast
  then show ?thesis using r s by (auto simp: same_store_def)
qed

theorem process_message_saves_accepted_witness:
  "preferences empty_state = PList []
   \<and> extracted (chat_env ''PREFERENCE: The user loves hiking'')
        ''I love hiking in the Alps. I like      it.'' empty_state
       = [(''hiking in the Alps'', ''pattern_detected''), (''it'', ''pattern_detected''),
          (''The user loves hiking'', ''llm_detected'')]
   \<and> filter valid_text [''hiking in the Alps'', ''it'', ''The user loves hiking'']
       = [''hiking in the Alps'', ''The user loves hiking'']
   \<and> preferences (snd (process_message (chat_env ''PREFERENCE: The user loves hiking'')
         ''user1'' ''I love hiking in the Alps. I like      it.'' empty_state))
       = preferences (save_each (chat_env ''PREFERENCE: The user loves hiking'')
           [(''hiking in the Alps'', ''pattern_detected''), (''it'', ''pattern_detected''),
            (''The user loves hiking'', ''llm_detected'')] empty_state)
   \<and> (\<exists>rs. preferences (snd (process_message (chat_env ''PREFERENCE: The user loves hiking'')
                  ''user1'' ''I love hiking in the Alps. I like      it.'' empty_state)) = PList rs
          \<and> length rs = 2)"
proof -
  let ?E = "chat_env ''PREFERENCE: The user loves hiking''"
  let ?m = "''I love hiking in the Alps. I like      it.''"
  have a: "preferences empty_state = PList []" by code_simp
  have b: "extracted ?E ?m empty_state
       = [(''hiking in the Alps'', ''pattern_detected''), (''it'', ''pattern_detected''),
          (''The user loves hiking'', ''llm_detected'')]" by code_simp
  have d: "filter valid_text [''hiking in the Alps'', ''it'', ''The user loves hiking'']
             = [''hiking in the Alps'', ''The user loves hiking'']" by code_simp
  let ?x = "[(''hiking in the Alps'', ''pattern_detected''), (''it'', ''pattern_detected''),
            (''The user loves hiking'', ''llm_detected'')]"
  have e: "length (filter valid_text (map fst ?x)) = 2"
    using d by simp
  from process_message_saves_accepted [OF a, of ?E "''user1''" ?m]
  have f: "preferences (snd (process_message ?E ''user1'' ?m empty_state))
             = preferences (save_each ?E ?x empty_state)"
    and g: "\<exists>rs. preferences (snd (process_message ?E ''user1'' ?m empty_state)) = PList ([] @ rs)
             \<and> length rs = length (filter valid_text (map fst ?x))"
    unfolding b by blast+
  from g e have h: "\<exists>rs. preferences (snd (process_message ?E ''user1'' ?m empty_state)) = PList rs
             \<and> length rs = 2"
    by (simp only: append_Nil)
  show ?thesis
    using a b d f h by (simp only: simp_thms)
qed

text \<open>
  C8. When the pattern preferences have been saved and the \<^verbatim>\<open>try\<close> block of the LLM-based
  extraction raises, \<^verbatim>\<open>process_message\<close> does not raise: it returns a response together with
  the first pattern preference, or \<^verbatim>\<open>None\<close> when the patterns found nothing.
\<close>

theorem llm_failure_falls_back:
  assumes "fst (save_all E (extract_preferences_with_pattern message) ''pattern_detected''
                  (record_message user_id ''user'' (PStr message) st)) = Inr ()"
      and "fst (llm_extraction_step E message (extract_preferences_with_pattern message)
                  (snd (save_all E (extract_preferences_with_pattern message) ''pattern_detected''
                          (record_message user_id ''user'' (PStr message) st)))) = Inl e"
  shows "\<exists>response. fst (process_message E user_id message st)
           = Inr (response, first_or_none (extract_preferences_with_pattern message))"
proof -
  let ?pats = "extract_preferences_with_pattern message"
  let ?st0 = "record_message user_id ''user'' (PStr message) st"
  obtain st1 where a: "save_all E ?pats ''pattern_detected'' ?st0 = (Inr (), st1)"
    using assms(1) by (metis prod.collapse)
  then have "snd (save_all E ?pats ''pattern_detected'' ?st0) = st1" by simp
  then obtain st2 where b: "llm_extraction_step E message ?pats st1 = (Inl e, st2)"
    using assms(2) by (metis prod.collapse)
  obtain resp st3 where g: "generate_response E st2 = (resp, st3)"
    by (cases "generate_response E st2") blast
  have "process_message E user_id message st
          = (Inr (resp, first_or_none ?pats), record_message user_id ''assistant'' resp st3)"
    unfolding process_message_def by (simp only: Let_def a b g split_conv sum.case)
  then show ?thesis by simp
qed

theorem llm_failure_falls_back_witness:
  "extract_preferences_with_pattern ''I like      it.'' = [''it'']
   \<and> fst (save_all (chat_env ''PREFERENCE: The user likes it'') [''it''] ''pattern_detected''
            (record_message ''user1'' ''user'' (PStr ''I like      it.'') dict_state)) = Inr ()
   \<and> fst (llm_extraction_step (chat_env ''PREFERENCE: The user likes it'') ''I like      it.'' [''it'']
            (snd (save_all (chat_env ''PREFERENCE: The user likes it'') [''it''] ''pattern_detected''
                    (record_message ''user1'' ''user'' (PStr ''I like      it.'') dict_state))))
       = Inl (AttributeError ''append'')
   \<and> fst (process_message (chat_env ''PREFERENCE: The user likes it'') ''user1'' ''I like      it.''
            dict_state)
       = Inr (PStr ''Tell me more.'', Some ''it'')"
proof -
  let ?E = "chat_env ''PREFERENCE: The user likes it''"
  let ?m = "''I like      it.''"
  have p: "extract_preferences_with_pattern ?m = [''it'']" by code_simp
  have a: "fst (save_all ?E [''it''] ''pattern_detected''
                  (record_message ''user1'' ''user'' (PStr ?m) dict_state)) = Inr ()"
    by code_simp
  have b: "fst (llm_extraction_step ?E ?m [''it'']
                  (snd (save_all ?E [''it''] ''pattern_detected''
                          (record_message ''user1'' ''user'' (PStr ?m) dict_state))))
             = Inl (AttributeError ''append'')"
    by code_simp
  from llm_failure_falls_back [of ?E ?m "''user1''" dict_state "AttributeError ''append''"] a b p
  obtain response where
    c: "fst (process_message ?E ''user1'' ?m dict_state) = Inr (response, Some ''it'')"
    by (auto simp: first_or_none_def)
  have "fst (process_message ?E ''user1'' ?m dict_state) = Inr (PStr ''Tell me more.'', Some ''it'')"
    by code_simp
  then show ?thesis using p a b c by simp
qed

end
